theory Spec2Isabelle
  imports Main "HOL-Library.Sublist"
begin

section \<open>Strings as the source uses them\<close>

text \<open>
  Python strings are modelled as \<open>string\<close> (a list of characters). The source uses
  \<open>str.startswith\<close>, \<open>str.endswith\<close>, \<open>str.split\<close> with a one-character separator and
  \<open>str.replace\<close>; each is given here with the behaviour of the Python built-in.
\<close>

definition startswith :: "string \<Rightarrow> string \<Rightarrow> bool" where
  "startswith s p = prefix p s"

definition endswith :: "string \<Rightarrow> string \<Rightarrow> bool" where
  "endswith s p = suffix p s"

text \<open>
  \<open>s.split(c)\<close>: the pieces of \<open>s\<close> between the occurrences of \<open>c\<close>; always at least
  one piece, and empty pieces are kept.
\<close>

fun split_on :: "char \<Rightarrow> string \<Rightarrow> string list" where
  "split_on c [] = [[]]"
| "split_on c (x # xs) =
     (if x = c then [] # split_on c xs
      else (case split_on c xs of
              [] \<Rightarrow> [[x]]
            | y # ys \<Rightarrow> (x # y) # ys))"

text \<open>
  \<open>s.replace(old, new)\<close> for a non-empty \<open>old\<close>: the occurrences of \<open>old\<close> are found
  from left to right, without overlap, and each is replaced by \<open>new\<close>.
\<close>

fun replace_str :: "string \<Rightarrow> string \<Rightarrow> string \<Rightarrow> string" where
  "replace_str old new [] = []"
| "replace_str old new (x # xs) =
     (if old \<noteq> [] \<and> prefix old (x # xs)
      then new @ replace_str old new (drop (length old) (x # xs))
      else x # replace_str old new xs)"

text \<open>\<open>old in s\<close>: \<open>old\<close> occurs in \<open>s\<close> as a contiguous substring.\<close>

fun occurs_in :: "string \<Rightarrow> string \<Rightarrow> bool" where
  "occurs_in old [] = (old = [])"
| "occurs_in old (x # xs) = (prefix old (x # xs) \<or> occurs_in old xs)"

section \<open>Errors\<close>

text \<open>
  Exceptions are values. \<open>git_error\<close> stands for what the git library raises:
  \<open>BadName\<close> (a revision that does not resolve) and \<open>GitError\<close> for every other
  exception of the library (a failed command, a missing or invalid repository path).
  \<open>error\<close> is what a method of the bundle can raise: the \<open>AirflowException\<close> and
  \<open>ValueError\<close> of the source with their messages, the \<open>IndexError\<close> of a list
  index out of range, the \<open>AttributeError\<close> of an attribute that was never set, and
  the errors of the git library, which the source lets through.
\<close>

datatype git_error = BadName | GitError string

datatype error =
    AirflowException string
  | ValueError string
  | IndexError
  | AttributeError string
  | Git git_error

section \<open>Paths\<close>

text \<open>
  \<open>pathlib\<close> paths (POSIX flavour). A path is its anchor (empty, one slash or two
  slashes) and its parts; parsing a string drops empty parts and parts that are a
  single dot, so that a repeated or trailing slash does not matter. \<open>p / s\<close> parses
  \<open>s\<close>: an absolute \<open>s\<close> replaces \<open>p\<close>, any other \<open>s\<close> adds its parts to those
  of \<open>p\<close>.
\<close>

record path =
  anchor :: string
  parts :: "string list"

definition splitroot :: "string \<Rightarrow> string \<times> string" where
  "splitroot s =
     (if \<not> startswith s ''/'' then ('''', s)
      else if startswith s ''//'' \<and> \<not> startswith s ''///'' then (''//'', drop 2 s)
      else (''/'', dropWhile (\<lambda>c. c = CHR ''/'') s))"

definition parse_path :: "string \<Rightarrow> path" where
  "parse_path s =
     (case splitroot s of
        (root, rel) \<Rightarrow>
          \<lparr>anchor = root,
           parts = filter (\<lambda>x. x \<noteq> [] \<and> x \<noteq> ''.'') (split_on CHR ''/'' rel)\<rparr>)"

definition truediv :: "path \<Rightarrow> string \<Rightarrow> path" where
  "truediv p s =
     (let q = parse_path s
      in if anchor q \<noteq> [] then q else p\<lparr>parts := parts p @ parts q\<rparr>)"



section \<open>The bundle\<close>

text \<open>
  The fields of \<open>GitDagBundle\<close>. \<open>name\<close>, \<open>version\<close> and the root storage path come
  from the base class; \<open>repo\<close> and \<open>bare_repo\<close> are the repository handles, unset
  until the corresponding clone step has run (a handle is the path it was opened at).
\<close>

record git_dag_bundle =
  name :: string
  version :: "string option"
  dag_bundle_root_storage_path :: path
  repo_url :: string
  tracking_ref :: string
  subdir :: "string option"
  bare_repo_path :: path
  repo_path :: path
  repo :: "path option"
  bare_repo :: "path option"

text \<open>Python truthiness of an optional string: \<open>None\<close> and the empty string are false.\<close>

fun truthy :: "string option \<Rightarrow> bool" where
  "truthy None = False"
| "truthy (Some s) = (s \<noteq> [])"

text \<open>\<open>self.version or self.tracking_ref\<close>\<close>

definition version_or_ref :: "string option \<Rightarrow> string \<Rightarrow> string" where
  "version_or_ref v r = (case v of None \<Rightarrow> r | Some s \<Rightarrow> if s \<noteq> [] then s else r)"

text \<open>The two paths of \<open>__init__\<close> (lines 54 to 57).\<close>

definition mk_bare_repo_path :: "path \<Rightarrow> string \<Rightarrow> path" where
  "mk_bare_repo_path root n = truediv (truediv root ''git'') n"

definition mk_repo_path :: "path \<Rightarrow> string \<Rightarrow> string option \<Rightarrow> string \<Rightarrow> path" where
  "mk_repo_path root n v r = truediv (truediv root ''git'') (n @ ''+'' @ version_or_ref v r)"

section \<open>The view URL\<close>

definition convert_git_ssh_url_to_https :: "git_dag_bundle \<Rightarrow> error + string" where
  "convert_git_ssh_url_to_https b =
     (if \<not> startswith (repo_url b) ''git@''
      then Inl (ValueError (''Invalid git SSH URL: '' @ repo_url b))
      else (case split_on CHR '':'' (repo_url b) of
              p0 # p1 # _ \<Rightarrow>
                Inr (replace_str ''git@'' ''https://'' p0 @ ''/'' @ replace_str ''.git'' '''' p1)
            | _ \<Rightarrow> Inl IndexError))"

text \<open>
  \<open>urlparse(url).hostname\<close> of the standard library. The URL loses its leading
  control characters and spaces and every tab, carriage return and line feed; a
  scheme is split off at the first colon when everything before it is a scheme
  character and the first character is a letter; the network location is what
  follows two slashes up to the next slash, question mark or hash; one bracket
  without the other is a \<open>ValueError\<close>. The host name is the network location
  after its last at-sign, up to the first colon (or between the brackets), in
  lower case up to a percent sign. The library's check of the address between
  brackets and of hosts outside ASCII is left out.
\<close>

definition before :: "char \<Rightarrow> string \<Rightarrow> string" where
  "before c s = takeWhile (\<lambda>x. x \<noteq> c) s"

definition after :: "char \<Rightarrow> string \<Rightarrow> string" where
  "after c s = drop 1 (dropWhile (\<lambda>x. x \<noteq> c) s)"

definition after_last :: "char \<Rightarrow> string \<Rightarrow> string" where
  "after_last c s = rev (takeWhile (\<lambda>x. x \<noteq> c) (rev s))"

definition ascii_letters :: string where
  "ascii_letters = ''abcdefghijklmnopqrstuvwxyzABCDEFGHIJKLMNOPQRSTUVWXYZ''"

definition scheme_chars :: string where
  "scheme_chars = ascii_letters @ ''0123456789+-.''"

definition lower_char :: "char \<Rightarrow> char" where
  "lower_char c =
     (case map_of (zip ''ABCDEFGHIJKLMNOPQRSTUVWXYZ'' ''abcdefghijklmnopqrstuvwxyz'') c of
        None \<Rightarrow> c
      | Some l \<Rightarrow> l)"

definition lower :: "string \<Rightarrow> string" where
  "lower s = map lower_char s"

definition strip_url :: "string \<Rightarrow> string" where
  "strip_url url =
     filter (\<lambda>c. c \<noteq> CHR 0x09 \<and> c \<noteq> CHR 0x0D \<and> c \<noteq> CHR 0x0A)
       (dropWhile (\<lambda>c. (of_char c :: nat) \<le> 32) url)"

definition drop_scheme :: "string \<Rightarrow> string" where
  "drop_scheme url =
     (let s = before CHR '':'' url
      in if CHR '':'' \<in> set url \<and> s \<noteq> [] \<and> hd s \<in> set ascii_letters
            \<and> list_all (\<lambda>c. c \<in> set scheme_chars) s
         then drop (length s + 1) url
         else url)"

definition netloc_of :: "string \<Rightarrow> error + string" where
  "netloc_of url =
     (let rest = drop_scheme (strip_url url)
      in if take 2 rest = ''//''
         then (let netloc = takeWhile (\<lambda>c. c \<notin> set ''/?#'') (drop 2 rest)
               in if (CHR ''['' \<in> set netloc) \<noteq> (CHR '']'' \<in> set netloc)
                  then Inl (ValueError ''Invalid IPv6 URL'')
                  else Inr netloc)
         else Inr [])"

definition hostname_of :: "string \<Rightarrow> string option" where
  "hostname_of netloc =
     (let hostinfo = after_last CHR ''@'' netloc;
          h = (if CHR ''['' \<in> set hostinfo
               then before CHR '']'' (after CHR ''['' hostinfo)
               else before CHR '':'' hostinfo)
      in if h = [] then None
         else Some (lower (before CHR ''%'' h) @ dropWhile (\<lambda>x. x \<noteq> CHR ''%'') h))"

definition urlparse_hostname :: "string \<Rightarrow> error + string option" where
  "urlparse_hostname url =
     (case netloc_of url of Inl e \<Rightarrow> Inl e | Inr netloc \<Rightarrow> Inr (hostname_of netloc))"

text \<open>
  The dictionary \<open>host_patterns\<close> in its insertion order, and the loop over its
  items, which returns the template of the first host that matches.
\<close>

definition host_patterns :: "string \<Rightarrow> string \<Rightarrow> (string \<times> string) list" where
  "host_patterns url v =
     [(''github.com'', url @ ''/tree/'' @ v),
      (''gitlab.com'', url @ ''/-/tree/'' @ v),
      (''bitbucket.org'', url @ ''/src/'' @ v)]"

fun first_host_match :: "string \<Rightarrow> (string \<times> string) list \<Rightarrow> string option" where
  "first_host_match host [] = None"
| "first_host_match host ((allowed_host, template) # rest) =
     (if host = allowed_host \<or> endswith host (''.'' @ allowed_host)
      then Some template
      else first_host_match host rest)"

definition view_url :: "git_dag_bundle \<Rightarrow> string option \<Rightarrow> error + string option" where
  "view_url b version' =
     (case version' of
        None \<Rightarrow> Inr None
      | Some v \<Rightarrow>
          if v = [] then Inr None
          else (case (if startswith (repo_url b) ''git@''
                      then convert_git_ssh_url_to_https b
                      else Inr (repo_url b)) of
                  Inl e \<Rightarrow> Inl e
                | Inr url \<Rightarrow>
                    (case urlparse_hostname url of
                       Inl e \<Rightarrow> Inl e
                     | Inr None \<Rightarrow> Inr None
                     | Inr (Some host) \<Rightarrow> Inr (first_host_match host (host_patterns url v)))))"

text \<open>The attributes set by \<open>__init__\<close> before its first git operation (lines 49 to 57).\<close>

definition new_bundle ::
  "string \<Rightarrow> string option \<Rightarrow> path \<Rightarrow> string \<Rightarrow> string \<Rightarrow> string option \<Rightarrow> git_dag_bundle" where
  "new_bundle n v root url r sd =
     \<lparr>name = n, version = v, dag_bundle_root_storage_path = root,
      repo_url = url, tracking_ref = r, subdir = sd,
      bare_repo_path = mk_bare_repo_path root n,
      repo_path = mk_repo_path root n v r,
      repo = None, bare_repo = None\<rparr>"

section \<open>The git library\<close>

text \<open>
  The source drives git through a library. Its calls are the fields of a record of
  operations over a state \<open>'w\<close> (the local disk and whatever the remotes hold), so that
  every statement below holds for any behaviour of the library. A repository handle
  is the path it was opened at; a commit object is its hexadecimal identifier.
  A query reads the state; a command returns the new state as well, also when it
  fails. \<open>'t\<close> is the type of a tree (the content of a commit, of the index, of the
  working tree).
\<close>

type_synonym sha = string

datatype clone_source = Url string | LocalPath path

record ('w, 't) git =
  path_exists :: "path \<Rightarrow> 'w \<Rightarrow> bool"
  clone_from :: "clone_source \<Rightarrow> path \<Rightarrow> bool \<Rightarrow> 'w \<Rightarrow> (git_error + unit) \<times> 'w"
  open_repo :: "path \<Rightarrow> 'w \<Rightarrow> git_error + unit"
  commit :: "path \<Rightarrow> string \<Rightarrow> 'w \<Rightarrow> git_error + sha"
  origin_fetch :: "path \<Rightarrow> string option \<Rightarrow> 'w \<Rightarrow> (git_error + unit) \<times> 'w"
  origin_pull :: "path \<Rightarrow> 'w \<Rightarrow> (git_error + unit) \<times> 'w"
  git_checkout :: "path \<Rightarrow> string \<Rightarrow> 'w \<Rightarrow> (git_error + unit) \<times> 'w"
  head_set_reference :: "path \<Rightarrow> sha \<Rightarrow> 'w \<Rightarrow> (git_error + unit) \<times> 'w"
  head_reset :: "path \<Rightarrow> 'w \<Rightarrow> (git_error + unit) \<times> 'w"
  head_commit :: "path \<Rightarrow> 'w \<Rightarrow> git_error + sha"
  index_tree :: "path \<Rightarrow> 'w \<Rightarrow> 't"
  working_tree :: "path \<Rightarrow> 'w \<Rightarrow> 't"
  commit_tree :: "path \<Rightarrow> sha \<Rightarrow> 'w \<Rightarrow> 't"

text \<open>
  \<open>path_exists\<close> is \<open>os.path.exists\<close>; \<open>clone_from src to bare\<close> is
  \<open>Repo.clone_from(url=src, to_path=to, bare=bare)\<close>; \<open>open_repo p\<close> is \<open>Repo(p)\<close>;
  \<open>commit p rev\<close> is \<open>repo.commit(rev)\<close>; \<open>origin_fetch p refspec\<close> is
  \<open>repo.remotes.origin.fetch(refspec)\<close>, with \<open>None\<close> for the call without argument;
  \<open>origin_pull p\<close> is \<open>repo.remotes.origin.pull()\<close>; \<open>git_checkout p ref\<close> is
  \<open>repo.git.checkout(ref)\<close>; \<open>head_set_reference p c\<close> is \<open>repo.head.set_reference(c)\<close>;
  \<open>head_reset p\<close> is \<open>repo.head.reset(index=True, working_tree=True)\<close>;
  \<open>head_commit p\<close> is \<open>repo.head.commit.hexsha\<close>.

  Every command that the source issues is recorded, in order, as an event.
\<close>

datatype event =
    CloneFrom clone_source path bool
  | Fetch path "string option"
  | Pull path
  | Checkout path string
  | SetReference path sha
  | Reset path

text \<open>
  A method runs on the state of the library and the events so far; it returns a value
  or the exception it raised, and the state it left behind in either case.
\<close>

type_synonym ('w, 'a) action = "'w \<times> event list \<Rightarrow> (error + 'a) \<times> ('w \<times> event list)"

definition return_ok :: "'a \<Rightarrow> ('w, 'a) action" where
  "return_ok a s = (Inr a, s)"

definition raise :: "error \<Rightarrow> ('w, 'a) action" where
  "raise e s = (Inl e, s)"

definition and_then :: "('w, 'a) action \<Rightarrow> ('a \<Rightarrow> ('w, 'b) action) \<Rightarrow> ('w, 'b) action" where
  "and_then m f s = (case m s of (Inl e, s') \<Rightarrow> (Inl e, s') | (Inr a, s') \<Rightarrow> f a s')"

definition git_call :: "event \<Rightarrow> ('w \<Rightarrow> (git_error + unit) \<times> 'w) \<Rightarrow> ('w, unit) action" where
  "git_call ev f s =
     (case f (fst s) of
        (Inl e, w') \<Rightarrow> (Inl (Git e), (w', snd s @ [ev]))
      | (Inr u, w') \<Rightarrow> (Inr u, (w', snd s @ [ev])))"

definition git_query :: "('w \<Rightarrow> git_error + 'a) \<Rightarrow> ('w, 'a) action" where
  "git_query q s = (case q (fst s) of Inl e \<Rightarrow> (Inl (Git e), s) | Inr a \<Rightarrow> (Inr a, s))"

text \<open>Reading \<open>self.repo\<close> or \<open>self.bare_repo\<close>: an attribute that was never set raises.\<close>

definition with_handle :: "path option \<Rightarrow> string \<Rightarrow> (path \<Rightarrow> ('w, 'a) action) \<Rightarrow> ('w, 'a) action" where
  "with_handle h attr f = (case h of None \<Rightarrow> raise (AttributeError attr) | Some p \<Rightarrow> f p)"

section \<open>The methods of the bundle\<close>

definition all_branches :: string where
  "all_branches = ''+refs/heads/*:refs/heads/*''"

definition has_version :: "('w, 't) git \<Rightarrow> path \<Rightarrow> string \<Rightarrow> ('w, bool) action" where
  "has_version g p v s =
     (case commit g p v (fst s) of
        Inr c \<Rightarrow> (Inr True, s)
      | Inl BadName \<Rightarrow> (Inr False, s)
      | Inl (GitError m) \<Rightarrow> (Inl (Git (GitError m)), s))"

definition clone_repo_if_required :: "('w, 't) git \<Rightarrow> git_dag_bundle \<Rightarrow> ('w, git_dag_bundle) action" where
  "clone_repo_if_required g b =
     and_then
       (\<lambda>s. if \<not> path_exists g (repo_path b) (fst s)
            then git_call (CloneFrom (LocalPath (bare_repo_path b)) (repo_path b) False)
                   (clone_from g (LocalPath (bare_repo_path b)) (repo_path b) False) s
            else return_ok () s)
       (\<lambda>_. and_then (git_query (open_repo g (repo_path b)))
          (\<lambda>_. return_ok (b\<lparr>repo := Some (repo_path b)\<rparr>)))"

definition clone_bare_repo_if_required :: "('w, 't) git \<Rightarrow> git_dag_bundle \<Rightarrow> ('w, git_dag_bundle) action" where
  "clone_bare_repo_if_required g b =
     and_then
       (\<lambda>s. if \<not> path_exists g (bare_repo_path b) (fst s)
            then git_call (CloneFrom (Url (repo_url b)) (bare_repo_path b) True)
                   (clone_from g (Url (repo_url b)) (bare_repo_path b) True) s
            else return_ok () s)
       (\<lambda>_. and_then (git_query (open_repo g (bare_repo_path b)))
          (\<lambda>_. return_ok (b\<lparr>bare_repo := Some (bare_repo_path b)\<rparr>)))"

definition ensure_version_in_bare_repo :: "('w, 't) git \<Rightarrow> git_dag_bundle \<Rightarrow> ('w, unit) action" where
  "ensure_version_in_bare_repo g b =
     (case version b of
        None \<Rightarrow> return_ok ()
      | Some v \<Rightarrow>
          if v = [] then return_ok ()
          else with_handle (bare_repo b) ''bare_repo'' (\<lambda>p.
            and_then (has_version g p v) (\<lambda>found.
              if \<not> found
              then and_then (git_call (Fetch p (Some all_branches)) (origin_fetch g p (Some all_branches)))
                     (\<lambda>_. and_then (has_version g p v) (\<lambda>found'.
                        if \<not> found'
                        then raise (AirflowException (''Version '' @ v @ '' not found in the repository''))
                        else return_ok ()))
              else return_ok ())))"

definition get_current_version :: "('w, 't) git \<Rightarrow> git_dag_bundle \<Rightarrow> 'w \<Rightarrow> error + sha" where
  "get_current_version g b w =
     (case repo b of
        None \<Rightarrow> Inl (AttributeError ''repo'')
      | Some p \<Rightarrow> (case head_commit g p w of Inl e \<Rightarrow> Inl (Git e) | Inr c \<Rightarrow> Inr c))"

definition refresh :: "('w, 't) git \<Rightarrow> git_dag_bundle \<Rightarrow> ('w, unit) action" where
  "refresh g b =
     (if truthy (version b)
      then raise (AirflowException ''Refreshing a specific version is not supported'')
      else and_then
             (with_handle (bare_repo b) ''bare_repo'' (\<lambda>p.
                git_call (Fetch p (Some all_branches)) (origin_fetch g p (Some all_branches))))
             (\<lambda>_. with_handle (repo b) ''repo'' (\<lambda>p. git_call (Pull p) (origin_pull g p))))"

text \<open>
  The body of \<open>if self.version:\<close> in \<open>__init__\<close> (lines 64 to 68): fetch into the
  working copy when it cannot resolve the version, then point the head at the commit
  and reset the index and the working tree.
\<close>

definition detach_to_version :: "('w, 't) git \<Rightarrow> git_dag_bundle \<Rightarrow> string \<Rightarrow> ('w, unit) action" where
  "detach_to_version g b v =
     with_handle (repo b) ''repo'' (\<lambda>p.
       and_then (has_version g p v) (\<lambda>found.
       and_then (if \<not> found then git_call (Fetch p None) (origin_fetch g p None) else return_ok ())
         (\<lambda>_. and_then (git_query (commit g p v))
         (\<lambda>c. and_then (git_call (SetReference p c) (head_set_reference g p c))
         (\<lambda>_. git_call (Reset p) (head_reset g p))))))"

text \<open>
  \<open>__init__\<close> from its first git operation on (lines 58 to 70), and the whole
  constructor. The keyword arguments \<open>name\<close> and \<open>version\<close> and the root storage path
  are what the base class stores.
\<close>

definition init_repos :: "('w, 't) git \<Rightarrow> git_dag_bundle \<Rightarrow> ('w, git_dag_bundle) action" where
  "init_repos g b =
     and_then (clone_bare_repo_if_required g b) (\<lambda>b1.
     and_then (ensure_version_in_bare_repo g b1) (\<lambda>_.
     and_then (clone_repo_if_required g b1) (\<lambda>b2.
     and_then (with_handle (repo b2) ''repo'' (\<lambda>p.
                 git_call (Checkout p (tracking_ref b2)) (git_checkout g p (tracking_ref b2))))
       (\<lambda>_. and_then
               (case version b2 of
                  None \<Rightarrow> refresh g b2
                | Some v \<Rightarrow> if v \<noteq> [] then detach_to_version g b2 v else refresh g b2)
               (\<lambda>_. return_ok b2)))))"

definition init ::
  "('w, 't) git \<Rightarrow> string \<Rightarrow> string option \<Rightarrow> path \<Rightarrow> string \<Rightarrow> string \<Rightarrow> string option
     \<Rightarrow> ('w, git_dag_bundle) action" where
  "init g n v root url r sd = init_repos g (new_bundle n v root url r sd)"

section \<open>What the library is assumed to do\<close>

text \<open>
  Two facts about the head of a repository: after \<open>head.set_reference(c)\<close> the head commit
  is \<open>c\<close>; \<open>head.reset(index=True, working_tree=True)\<close> keeps the head commit and leaves
  the index and the working tree equal to the tree of that commit.
\<close>

definition head_laws :: "('w, 't) git \<Rightarrow> bool" where
  "head_laws g \<longleftrightarrow>
     (\<forall>p c w w'. head_set_reference g p c w = (Inr (), w') \<longrightarrow> head_commit g p w' = Inr c) \<and>
     (\<forall>p c w w'. head_reset g p w = (Inr (), w') \<longrightarrow> head_commit g p w = Inr c \<longrightarrow>
        head_commit g p w' = Inr c \<and>
        index_tree g p w' = commit_tree g p c w' \<and>
        working_tree g p w' = commit_tree g p c w')"

text \<open>
  A full commit identifier names one commit, itself: whenever the library resolves
  \<open>v\<close>, the commit it returns has the identifier \<open>v\<close>. (An abbreviated identifier or
  the name of a branch resolves to a commit with another identifier.)
\<close>

definition full_commit_id :: "('w, 't) git \<Rightarrow> string \<Rightarrow> bool" where
  "full_commit_id g v \<longleftrightarrow> (\<forall>p w c. commit g p v w = Inr c \<longrightarrow> c = v)"

section \<open>A small git\<close>

text \<open>
  An executable instance of the library, used to run the methods on concrete
  repositories. A repository holds its commits, its branches, the branches of its
  origin as of the last fetch, its head, where it was cloned from, and which commit
  (if any) the index and the working tree agree with. The state of the simulation is
  the repositories reachable by URL and the repositories on disk.

  It stands for the library on the commands that the bundle issues, and leaves out what
  the runs below do not need. A revision is a full commit identifier: \<open>commit\<close> does not
  resolve the name of a branch or of a tag, nor an abbreviated identifier, and it answers
  \<open>BadName\<close>, the exception that \<open>_has_version\<close> expects, for an identifier that the
  repository does not hold. A fetch brings every commit of the origin and knows the two
  refspecs that the source uses; a pull is a fast-forward of the current branch.
\<close>

datatype head = OnBranch string | Detached sha

record sim_repo =
  objects :: "sha list"
  heads :: "(string \<times> sha) list"
  remote_heads :: "(string \<times> sha) list"
  cur_head :: head
  origin :: clone_source
  is_bare :: bool
  staged :: "sha option"
  worktree :: "sha option"

record sim_world =
  remotes :: "string \<Rightarrow> sim_repo option"
  disk :: "path \<Rightarrow> sim_repo option"

definition sim_resolve :: "sim_world \<Rightarrow> clone_source \<Rightarrow> sim_repo option" where
  "sim_resolve w src = (case src of Url u \<Rightarrow> remotes w u | LocalPath p \<Rightarrow> disk w p)"

definition sim_head_of :: "sim_repo \<Rightarrow> sha option" where
  "sim_head_of r = (case cur_head r of Detached c \<Rightarrow> Some c | OnBranch b \<Rightarrow> map_of (heads r) b)"

definition sim_put :: "path \<Rightarrow> sim_repo \<Rightarrow> sim_world \<Rightarrow> sim_world" where
  "sim_put p r w = w\<lparr>disk := (disk w)(p \<mapsto> r)\<rparr>"

definition sim_clone_from ::
  "clone_source \<Rightarrow> path \<Rightarrow> bool \<Rightarrow> sim_world \<Rightarrow> (git_error + unit) \<times> sim_world" where
  "sim_clone_from src to bare w =
     (case sim_resolve w src of
        None \<Rightarrow> (Inl (GitError ''repository not found''), w)
      | Some r \<Rightarrow>
          if disk w to \<noteq> None then (Inl (GitError ''destination path already exists''), w)
          else (Inr (),
                sim_put to
                  \<lparr>objects = objects r,
                   heads = (if bare then heads r
                            else (case cur_head r of
                                    OnBranch b \<Rightarrow> filter (\<lambda>x. fst x = b) (heads r)
                                  | Detached c \<Rightarrow> [])),
                   remote_heads = (if bare then [] else heads r),
                   cur_head = cur_head r,
                   origin = src,
                   is_bare = bare,
                   staged = (if bare then None else sim_head_of r),
                   worktree = (if bare then None else sim_head_of r)\<rparr> w))"

definition sim_open_repo :: "path \<Rightarrow> sim_world \<Rightarrow> git_error + unit" where
  "sim_open_repo p w = (if disk w p = None then Inl (GitError ''no such path'') else Inr ())"

definition sim_commit :: "path \<Rightarrow> string \<Rightarrow> sim_world \<Rightarrow> git_error + sha" where
  "sim_commit p v w =
     (case disk w p of
        None \<Rightarrow> Inl (GitError ''no such path'')
      | Some r \<Rightarrow> if v \<in> set (objects r) then Inr v else Inl BadName)"

definition sim_origin_fetch ::
  "path \<Rightarrow> string option \<Rightarrow> sim_world \<Rightarrow> (git_error + unit) \<times> sim_world" where
  "sim_origin_fetch p refspec w =
     (case disk w p of
        None \<Rightarrow> (Inl (GitError ''no such path''), w)
      | Some r \<Rightarrow>
          (case sim_resolve w (origin r) of
             None \<Rightarrow> (Inl (GitError ''could not read from remote repository''), w)
           | Some src \<Rightarrow>
               if refspec = Some all_branches
               then (Inr (), sim_put p (r\<lparr>objects := remdups (objects r @ objects src),
                                          heads := heads src @ heads r\<rparr>) w)
               else if refspec = None
               then (Inr (), sim_put p (r\<lparr>objects := remdups (objects r @ objects src),
                                          remote_heads := heads src @ remote_heads r\<rparr>) w)
               else (Inl (GitError ''unsupported refspec''), w)))"

definition sim_origin_pull :: "path \<Rightarrow> sim_world \<Rightarrow> (git_error + unit) \<times> sim_world" where
  "sim_origin_pull p w =
     (case disk w p of
        None \<Rightarrow> (Inl (GitError ''no such path''), w)
      | Some r \<Rightarrow>
          (case sim_resolve w (origin r) of
             None \<Rightarrow> (Inl (GitError ''could not read from remote repository''), w)
           | Some src \<Rightarrow>
               (case cur_head r of
                  Detached c \<Rightarrow> (Inl (GitError ''not currently on a branch''), w)
                | OnBranch b \<Rightarrow>
                    (case map_of (heads src) b of
                       None \<Rightarrow> (Inl (GitError ''no such ref was fetched''), w)
                     | Some c \<Rightarrow>
                         (Inr (),
                          sim_put p (r\<lparr>objects := remdups (objects r @ objects src),
                                       remote_heads := heads src @ remote_heads r,
                                       heads := (b, c) # heads r,
                                       staged := Some c,
                                       worktree := Some c\<rparr>) w)))))"

definition sim_git_checkout :: "path \<Rightarrow> string \<Rightarrow> sim_world \<Rightarrow> (git_error + unit) \<times> sim_world" where
  "sim_git_checkout p ref w =
     (case disk w p of
        None \<Rightarrow> (Inl (GitError ''no such path''), w)
      | Some r \<Rightarrow>
          if is_bare r then (Inl (GitError ''this operation must be run in a work tree''), w)
          else (case map_of (heads r) ref of
                  Some c \<Rightarrow>
                    (Inr (), sim_put p (r\<lparr>cur_head := OnBranch ref, staged := Some c,
                                          worktree := Some c\<rparr>) w)
                | None \<Rightarrow>
                    (case map_of (remote_heads r) ref of
                       Some c \<Rightarrow>
                         (Inr (), sim_put p (r\<lparr>heads := (ref, c) # heads r,
                                               cur_head := OnBranch ref, staged := Some c,
                                               worktree := Some c\<rparr>) w)
                     | None \<Rightarrow>
                         if ref \<in> set (objects r)
                         then (Inr (), sim_put p (r\<lparr>cur_head := Detached ref, staged := Some ref,
                                                    worktree := Some ref\<rparr>) w)
                         else (Inl (GitError ''pathspec did not match''), w))))"

definition sim_head_set_reference ::
  "path \<Rightarrow> sha \<Rightarrow> sim_world \<Rightarrow> (git_error + unit) \<times> sim_world" where
  "sim_head_set_reference p c w =
     (case disk w p of
        None \<Rightarrow> (Inl (GitError ''no such path''), w)
      | Some r \<Rightarrow> (Inr (), sim_put p (r\<lparr>cur_head := Detached c\<rparr>) w))"

definition sim_head_reset :: "path \<Rightarrow> sim_world \<Rightarrow> (git_error + unit) \<times> sim_world" where
  "sim_head_reset p w =
     (case disk w p of
        None \<Rightarrow> (Inl (GitError ''no such path''), w)
      | Some r \<Rightarrow>
          (case sim_head_of r of
             None \<Rightarrow> (Inl (GitError ''head does not point to a commit''), w)
           | Some c \<Rightarrow> (Inr (), sim_put p (r\<lparr>staged := Some c, worktree := Some c\<rparr>) w)))"

definition sim_head_commit :: "path \<Rightarrow> sim_world \<Rightarrow> git_error + sha" where
  "sim_head_commit p w =
     (case disk w p of
        None \<Rightarrow> Inl (GitError ''no such path'')
      | Some r \<Rightarrow>
          (case sim_head_of r of
             None \<Rightarrow> Inl (GitError ''head does not point to a commit'')
           | Some c \<Rightarrow> Inr c))"

definition sim :: "(sim_world, sha option) git" where
  "sim =
     \<lparr>path_exists = (\<lambda>p w. disk w p \<noteq> None),
      clone_from = sim_clone_from,
      open_repo = sim_open_repo,
      commit = sim_commit,
      origin_fetch = sim_origin_fetch,
      origin_pull = sim_origin_pull,
      git_checkout = sim_git_checkout,
      head_set_reference = sim_head_set_reference,
      head_reset = sim_head_reset,
      head_commit = sim_head_commit,
      index_tree = (\<lambda>p w. case disk w p of None \<Rightarrow> None | Some r \<Rightarrow> staged r),
      working_tree = (\<lambda>p w. case disk w p of None \<Rightarrow> None | Some r \<Rightarrow> worktree r),
      commit_tree = (\<lambda>p c w. Some c)\<rparr>"

text \<open>
  The example: a repository reachable at \<open>demo_url\<close> with two commits on its branch
  \<open>main\<close>, and nothing on disk.
\<close>

definition commit_a :: sha where
  "commit_a = ''1f0c3a9be2d44f6a8b7c5d9e0a1b2c3d4e5f6a7b''"

definition commit_b :: sha where
  "commit_b = ''9e8d7c6b5a4f3e2d1c0b9a8f7e6d5c4b3a2f1e0d''"

definition demo_url :: string where
  "demo_url = ''https://github.com/org/repo''"

definition demo_root :: path where
  "demo_root = \<lparr>anchor = ''/'', parts = [''tmp'', ''bundles'']\<rparr>"

definition demo_origin :: sim_repo where
  "demo_origin =
     \<lparr>objects = [commit_a, commit_b],
      heads = [(''main'', commit_b)],
      remote_heads = [],
      cur_head = OnBranch ''main'',
      origin = Url demo_url,
      is_bare = True,
      staged = None,
      worktree = None\<rparr>"

definition demo_world :: sim_world where
  "demo_world = \<lparr>remotes = [demo_url \<mapsto> demo_origin], disk = Map.empty\<rparr>"

text \<open>
  The paths of the example, a bundle pinned to a commit, and the same bundle with both
  of its handles set.
\<close>

definition demo_mirror :: path where
  "demo_mirror = \<lparr>anchor = ''/'', parts = [''tmp'', ''bundles'', ''git'', ''dags'']\<rparr>"

definition demo_copy :: "sha \<Rightarrow> path" where
  "demo_copy v = \<lparr>anchor = ''/'', parts = [''tmp'', ''bundles'', ''git'', ''dags+'' @ v]\<rparr>"

definition demo_bundle :: "sha \<Rightarrow> git_dag_bundle" where
  "demo_bundle v = new_bundle ''dags'' (Some v) demo_root demo_url ''main'' None"

definition opened :: "git_dag_bundle \<Rightarrow> git_dag_bundle" where
  "opened b = b\<lparr>bare_repo := Some (bare_repo_path b), repo := Some (repo_path b)\<rparr>"

text \<open>
  A commit that no repository holds; a mirror that was cloned when the origin had only
  its first commit; and a working copy of that age beside an up-to-date mirror.
\<close>

definition commit_c :: sha where
  "commit_c = ''5b4a39281706f5e4d3c2b1a0f9e8d7c6b5a49382''"

definition stale_mirror :: sim_repo where
  "stale_mirror =
     \<lparr>objects = [commit_a],
      heads = [(''main'', commit_a)],
      remote_heads = [],
      cur_head = OnBranch ''main'',
      origin = Url demo_url,
      is_bare = True,
      staged = None,
      worktree = None\<rparr>"

definition stale_world :: sim_world where
  "stale_world = \<lparr>remotes = [demo_url \<mapsto> demo_origin], disk = [demo_mirror \<mapsto> stale_mirror]\<rparr>"

definition stale_copy :: sim_repo where
  "stale_copy =
     \<lparr>objects = [commit_a],
      heads = [(''main'', commit_a)],
      remote_heads = [(''main'', commit_a)],
      cur_head = OnBranch ''main'',
      origin = LocalPath demo_mirror,
      is_bare = False,
      staged = Some commit_a,
      worktree = Some commit_a\<rparr>"

definition stale_copy_world :: sim_world where
  "stale_copy_world =
     \<lparr>remotes = [demo_url \<mapsto> demo_origin],
      disk = [demo_mirror \<mapsto> demo_origin, demo_copy commit_b \<mapsto> stale_copy]\<rparr>"

text \<open>
  The origin with a second branch, \<open>feature\<close>, created after the mirror was cloned: the
  mirror on disk holds the first commit and the branch \<open>main\<close> only.
\<close>

definition branched_origin :: sim_repo where
  "branched_origin = demo_origin\<lparr>heads := [(''main'', commit_b), (''feature'', commit_b)]\<rparr>"

definition branched_world :: sim_world where
  "branched_world =
     \<lparr>remotes = [demo_url \<mapsto> branched_origin], disk = [demo_mirror \<mapsto> stale_mirror]\<rparr>"

section \<open>The events of a run\<close>

text \<open>
  A clone over the network is a clone from a URL. \<open>emits_only P m\<close>: whatever the state,
  the method \<open>m\<close> adds events to the end of the record, and every event it adds
  satisfies \<open>P\<close>.
\<close>

fun is_network_clone :: "event \<Rightarrow> bool" where
  "is_network_clone (CloneFrom (Url u) p bare) = True"
| "is_network_clone e = False"

definition emits_only :: "(event \<Rightarrow> bool) \<Rightarrow> ('w, 'a) action \<Rightarrow> bool" where
  "emits_only P m \<longleftrightarrow> (\<forall>w tr. \<exists>evs. snd (snd (m (w, tr))) = tr @ evs \<and> list_all P evs)"

section \<open>Properties of the view URL\<close>

lemmas url_defs = view_url_def startswith_def endswith_def suffix_to_prefix
  convert_git_ssh_url_to_https_def urlparse_hostname_def netloc_of_def strip_url_def
  drop_scheme_def before_def after_def after_last_def ascii_letters_def scheme_chars_def
  hostname_of_def lower_def lower_char_def host_patterns_def

lemma split_on_no_sep: "c \<notin> set s \<Longrightarrow> split_on c s = [s]"
  by (induction s) auto

lemma split_on_first: "c \<notin> set a \<Longrightarrow> split_on c (a @ c # r) = a # split_on c r"
  by (induction a) auto


lemma replace_str_absent: "\<not> occurs_in old s \<Longrightarrow> replace_str old new s = s"
  by (induction s) auto

lemma no_at_no_git_at: "CHR ''@'' \<notin> set s \<Longrightarrow> \<not> occurs_in ''git@'' s"
  by (induction s) (auto simp: prefix_def)

text \<open>
  No occurrence of \<open>.git\<close> can start inside \<open>x # xs\<close> and end inside a \<open>.git\<close> that
  follows it: the dot is the first character of \<open>.git\<close> only.
\<close>

lemma dot_git_overlap:
  "\<not> prefix ''.git'' (x # xs) \<Longrightarrow> \<not> prefix ''.git'' (x # (xs @ ''.git''))"
proof (cases xs)
  case Nil
  then show ?thesis by simp
next
  case (Cons a as)
  note c1 = this
  assume np: "\<not> prefix ''.git'' (x # xs)"
  show ?thesis
  proof (cases as)
    case Nil
    with c1 show ?thesis by simp
  next
    case (Cons b bs)
    note c2 = this
    show ?thesis
    proof (cases bs)
      case Nil
      with c1 c2 show ?thesis by simp
    next
      case (Cons c cs)
      with c1 c2 np show ?thesis by simp
    qed
  qed
qed

lemma replace_dot_git_suffix:
  "\<not> occurs_in ''.git'' s \<Longrightarrow> replace_str ''.git'' '''' (s @ ''.git'') = s"
proof (induction s)
  case Nil
  then show ?case by simp
next
  case (Cons x xs)
  from Cons.prems have np: "\<not> prefix ''.git'' (x # xs)" and no: "\<not> occurs_in ''.git'' xs"
    by simp_all
  from np have np2: "\<not> prefix ''.git'' (x # (xs @ ''.git''))"
    by (rule dot_git_overlap)
  have "replace_str ''.git'' '''' ((x # xs) @ ''.git'') = replace_str ''.git'' '''' (x # (xs @ ''.git''))"
    by simp
  also have "\<dots> = x # replace_str ''.git'' '''' (xs @ ''.git'')"
    using np2 by (subst replace_str.simps) (simp only: if_False simp_thms)
  also have "\<dots> = x # xs"
    using Cons.IH [OF no] by simp
  finally show ?case .
qed

text \<open>
  Claim C5. \<open>view_url\<close> on the four examples of the specification: a GitHub URL over
  HTTPS gets the \<open>/tree/\<close> link; a GitLab SSH address is converted and gets the
  \<open>/-/tree/\<close> link; a host that is none of the known providers gets no link; and
  without a version there is no link, whatever the source URL.
\<close>

theorem view_url_examples:
  "view_url (b\<lparr>repo_url := ''https://github.com/org/repo''\<rparr>) (Some ''abc123'')
     = Inr (Some ''https://github.com/org/repo/tree/abc123'')
   \<and> view_url (b\<lparr>repo_url := ''git@gitlab.com:org/repo.git''\<rparr>) (Some ''v1'')
     = Inr (Some ''https://gitlab.com/org/repo/-/tree/v1'')
   \<and> view_url (b\<lparr>repo_url := ''https://example.com/org/repo''\<rparr>) (Some ''abc123'') = Inr None
   \<and> view_url b None = Inr None"
  by (simp add: url_defs)

text \<open>The four examples on the bundle of the example repository.\<close>

theorem view_url_examples_witness:
  "view_url ((demo_bundle commit_a)\<lparr>repo_url := ''https://github.com/org/repo''\<rparr>) (Some ''abc123'')
     = Inr (Some ''https://github.com/org/repo/tree/abc123'')
   \<and> view_url ((demo_bundle commit_a)\<lparr>repo_url := ''git@gitlab.com:org/repo.git''\<rparr>) (Some ''v1'')
     = Inr (Some ''https://gitlab.com/org/repo/-/tree/v1'')
   \<and> view_url ((demo_bundle commit_a)\<lparr>repo_url := ''https://example.com/org/repo''\<rparr>) (Some ''abc123'')
     = Inr None
   \<and> view_url (demo_bundle commit_a) None = Inr None"
  by (rule view_url_examples)

text \<open>
  Claim C6, as amended. For a source URL \<open>git@host:path\<close> whose host holds neither a
  colon nor an at-sign and whose path holds no colon and no \<open>.git\<close> other than, at
  most, as its suffix, the conversion returns \<open>https://host/path\<close> with that suffix
  removed. (The source accepts no user but \<open>git\<close>.)
\<close>

theorem ssh_conversion:
  assumes "CHR '':'' \<notin> set host" "CHR ''@'' \<notin> set host" "CHR '':'' \<notin> set stem"
    and "\<not> occurs_in ''.git'' stem" "p = stem \<or> p = stem @ ''.git''"
  shows "convert_git_ssh_url_to_https (b\<lparr>repo_url := ''git@'' @ host @ '':'' @ p\<rparr>)
         = Inr (''https://'' @ host @ ''/'' @ stem)"
proof -
  have sp: "split_on CHR '':'' (''git@'' @ host @ '':'' @ p) = (''git@'' @ host) # [p]"
    using assms(1,3,5) split_on_first [of "CHR '':''" "''git@'' @ host" p]
    by (auto simp: split_on_no_sep)
  have r0: "replace_str ''git@'' ''https://'' (''git@'' @ host) = ''https://'' @ host"
    using replace_str_absent [OF no_at_no_git_at [OF assms(2)]] by simp
  have r1: "replace_str ''.git'' '''' p = stem"
    using assms(4,5) replace_str_absent replace_dot_git_suffix by auto
  show ?thesis
    unfolding convert_git_ssh_url_to_https_def using sp r0 r1
    by (simp add: startswith_def)
qed

text \<open>The conversion of \<open>git@gitlab.com:org/repo.git\<close>.\<close>

theorem ssh_conversion_witness:
  "CHR '':'' \<notin> set ''gitlab.com'' \<and> CHR ''@'' \<notin> set ''gitlab.com''
   \<and> CHR '':'' \<notin> set ''org/repo'' \<and> \<not> occurs_in ''.git'' ''org/repo''
   \<and> convert_git_ssh_url_to_https
        ((demo_bundle commit_a)\<lparr>repo_url := ''git@'' @ ''gitlab.com'' @ '':'' @ ''org/repo.git''\<rparr>)
       = Inr (''https://'' @ ''gitlab.com'' @ ''/'' @ ''org/repo'')"
proof -
  have h1: "CHR '':'' \<notin> set ''gitlab.com''" and h2: "CHR ''@'' \<notin> set ''gitlab.com''"
    and h3: "CHR '':'' \<notin> set ''org/repo''" and h4: "\<not> occurs_in ''.git'' ''org/repo''"
    and h5: "''org/repo.git'' = ''org/repo'' \<or> ''org/repo.git'' = ''org/repo'' @ ''.git''"
    by simp_all
  from ssh_conversion [OF h1 h2 h3 h4 h5, of "demo_bundle commit_a"] h1 h2 h3 h4
  show ?thesis by blast
qed

text \<open>
  An address of the form \<open>user@host:path\<close> with another user than \<open>git\<close> is not
  converted: the source raises \<open>ValueError\<close>.
\<close>

theorem ssh_conversion_other_user:
  "convert_git_ssh_url_to_https ((demo_bundle commit_a)\<lparr>repo_url := ''alice@example.com:org/repo.git''\<rparr>)
     = Inl (ValueError ''Invalid git SSH URL: alice@example.com:org/repo.git'')"
  by (simp add: convert_git_ssh_url_to_https_def startswith_def)

text \<open>
  Claim C7, on the code. A source URL that starts with \<open>git@\<close> and holds no colon:
  \<open>view_url\<close> with a non-empty version raises, but what it raises is the \<open>IndexError\<close>
  of \<open>parts[1]\<close>, not the \<open>ValueError\<close> with which the conversion rejects an invalid
  SSH URL.
\<close>

theorem view_url_missing_colon:
  assumes "startswith (repo_url b) ''git@''" "CHR '':'' \<notin> set (repo_url b)" "v \<noteq> []"
  shows "view_url b (Some v) = Inl IndexError"
  using assms by (simp add: view_url_def convert_git_ssh_url_to_https_def split_on_no_sep)

text \<open>The failing input: \<open>git@github.com/org/repo.git\<close> with the version \<open>v1\<close>.\<close>

theorem view_url_missing_colon_witness:
  "startswith (repo_url ((demo_bundle commit_a)\<lparr>repo_url := ''git@github.com/org/repo.git''\<rparr>)) ''git@''
   \<and> CHR '':'' \<notin> set (repo_url ((demo_bundle commit_a)\<lparr>repo_url := ''git@github.com/org/repo.git''\<rparr>))
   \<and> view_url ((demo_bundle commit_a)\<lparr>repo_url := ''git@github.com/org/repo.git''\<rparr>) (Some ''v1'')
       = Inl IndexError"
proof -
  let ?b = "(demo_bundle commit_a)\<lparr>repo_url := ''git@github.com/org/repo.git''\<rparr>"
  have h1: "startswith (repo_url ?b) ''git@''" by (simp add: startswith_def)
  have h2: "CHR '':'' \<notin> set (repo_url ?b)" by simp
  have h3: "''v1'' \<noteq> []" by simp
  from view_url_missing_colon [OF h1 h2 h3] h1 h2 show ?thesis by blast
qed

section \<open>Properties of the paths\<close>

lemmas path_defs = mk_bare_repo_path_def mk_repo_path_def version_or_ref_def truediv_def
  parse_path_def splitroot_def startswith_def Let_def








lemma plain_part:
  assumes "s \<noteq> []" "CHR ''/'' \<notin> set s" "s \<noteq> ''.''"
  shows "truediv p s = p\<lparr>parts := parts p @ [s]\<rparr>"
  using assms
  by (cases s) (auto simp add: truediv_def parse_path_def splitroot_def startswith_def Let_def split_on_no_sep)


section \<open>Properties of the methods\<close>

lemmas action_defs = and_then_def return_ok_def raise_def git_call_def git_query_def
  with_handle_def has_version_def

lemmas method_defs = init_def init_repos_def new_bundle_def clone_bare_repo_if_required_def
  clone_repo_if_required_def ensure_version_in_bare_repo_def detach_to_version_def refresh_def
  get_current_version_def all_branches_def

lemmas sim_defs = sim_def sim_clone_from_def sim_open_repo_def sim_commit_def sim_origin_fetch_def
  sim_origin_pull_def sim_git_checkout_def sim_head_set_reference_def sim_head_reset_def
  sim_head_commit_def sim_resolve_def sim_head_of_def sim_put_def

lemmas world_defs = demo_world_def demo_origin_def demo_root_def demo_url_def commit_a_def
  commit_b_def commit_c_def demo_mirror_def demo_copy_def
  stale_mirror_def stale_world_def stale_copy_def stale_copy_world_def

lemmas demo_defs = world_defs demo_bundle_def opened_def

lemma and_then_Inr:
  "and_then m f s = (Inr b, s') \<Longrightarrow> \<exists>a s1. m s = (Inr a, s1) \<and> f a s1 = (Inr b, s')"
  by (auto simp: and_then_def split: prod.splits sum.splits)

lemma and_then_InlE:
  assumes "and_then m f s = (Inl e, s')"
  obtains "m s = (Inl e, s')" | a s1 where "m s = (Inr a, s1)" "f a s1 = (Inl e, s')"
  using assms by (auto simp: and_then_def split: prod.splits sum.splits)

lemma demo_paths:
  "bare_repo_path (demo_bundle v) = demo_mirror"
  "CHR ''/'' \<notin> set v \<Longrightarrow> v \<noteq> [] \<Longrightarrow> repo_path (demo_bundle v) = demo_copy v"
proof -
  have g: "truediv demo_root ''git'' = \<lparr>anchor = ''/'', parts = [''tmp'', ''bundles'', ''git'']\<rparr>"
    by (simp add: plain_part demo_root_def)
  show "bare_repo_path (demo_bundle v) = demo_mirror"
    by (simp add: demo_bundle_def new_bundle_def mk_bare_repo_path_def g plain_part demo_mirror_def)
  assume "CHR ''/'' \<notin> set v" and ne: "v \<noteq> []"
  then have "truediv p (''dags+'' @ v) = p\<lparr>parts := parts p @ [''dags+'' @ v]\<rparr>" for p
    by (intro plain_part) simp_all
  with ne show "repo_path (demo_bundle v) = demo_copy v"
    by (simp add: demo_bundle_def new_bundle_def mk_repo_path_def version_or_ref_def g demo_copy_def)
qed

text \<open>
  Claim C3. On a bundle with a pinned version (a version that is not empty),
  \<open>refresh\<close> raises the exception "Refreshing a specific version is not supported"
  and returns the state it was called in: no fetch and no pull has run, and the
  working copy and the mirror are as they were.
\<close>

theorem refresh_pinned_rejected:
  assumes "version b = Some v" "v \<noteq> []"
  shows "refresh g b s
         = (Inl (AirflowException ''Refreshing a specific version is not supported''), s)"
  using assms by (simp add: refresh_def raise_def)

text \<open>\<open>refresh\<close> on the example bundle pinned to the first commit.\<close>

theorem refresh_pinned_rejected_witness:
  "version (opened (demo_bundle commit_a)) = Some commit_a \<and> commit_a \<noteq> []
   \<and> refresh sim (opened (demo_bundle commit_a)) (stale_copy_world, [])
       = (Inl (AirflowException ''Refreshing a specific version is not supported''),
          (stale_copy_world, []))"
proof -
  have h1: "version (opened (demo_bundle commit_a)) = Some commit_a"
    by (simp add: opened_def demo_bundle_def new_bundle_def)
  have h2: "commit_a \<noteq> []" by (simp add: commit_a_def)
  from refresh_pinned_rejected [OF h1 h2] h1 h2 show ?thesis by blast
qed



text \<open>
  Claim C9. When the working-copy path does not exist, the step records exactly one
  event: a clone from the local path of the mirror to the working-copy path, not bare.
  In no state does the step clone from a URL.
\<close>

theorem working_copy_cloned_from_mirror:
  assumes "\<not> path_exists g (repo_path b) w"
  shows "snd (clone_repo_if_required g b (w, tr))
           = (snd (clone_from g (LocalPath (bare_repo_path b)) (repo_path b) False w),
              tr @ [CloneFrom (LocalPath (bare_repo_path b)) (repo_path b) False])
       \<and> \<not> is_network_clone (CloneFrom (LocalPath (bare_repo_path b)) (repo_path b) False)
       \<and> emits_only (\<lambda>e. \<not> is_network_clone e) (clone_repo_if_required g b)"
proof (intro conjI)
  show "snd (clone_repo_if_required g b (w, tr))
           = (snd (clone_from g (LocalPath (bare_repo_path b)) (repo_path b) False w),
              tr @ [CloneFrom (LocalPath (bare_repo_path b)) (repo_path b) False])"
    using assms
    by (auto simp: clone_repo_if_required_def action_defs split: sum.splits prod.splits)
  show "\<not> is_network_clone (CloneFrom (LocalPath (bare_repo_path b)) (repo_path b) False)"
    by simp
  show "emits_only (\<lambda>e. \<not> is_network_clone e) (clone_repo_if_required g b)"
    by (auto simp: emits_only_def clone_repo_if_required_def action_defs
             split: sum.splits prod.splits)
qed

text \<open>The working copy of the first commit, cloned from the stale mirror.\<close>

theorem working_copy_cloned_from_mirror_witness:
  "\<not> path_exists sim (repo_path (demo_bundle commit_a)) stale_world
   \<and> snd (snd (clone_repo_if_required sim (demo_bundle commit_a) (stale_world, [])))
       = [CloneFrom (LocalPath demo_mirror) (demo_copy commit_a) False]
   \<and> fst (clone_repo_if_required sim (demo_bundle commit_a) (stale_world, []))
       = Inr ((demo_bundle commit_a)\<lparr>repo := Some (demo_copy commit_a)\<rparr>)"
proof -
  have p: "repo_path (demo_bundle commit_a) = demo_copy commit_a"
    "bare_repo_path (demo_bundle commit_a) = demo_mirror"
    by (simp_all add: demo_paths commit_a_def)
  have h: "\<not> path_exists sim (repo_path (demo_bundle commit_a)) stale_world"
    unfolding p by (simp add: sim_def stale_world_def demo_mirror_def demo_copy_def)
  have r: "fst (clone_repo_if_required sim (demo_bundle commit_a) (stale_world, []))
       = Inr ((demo_bundle commit_a)\<lparr>repo := Some (demo_copy commit_a)\<rparr>)"
    by (simp add: clone_repo_if_required_def action_defs p sim_defs stale_world_def
          stale_mirror_def demo_mirror_def demo_copy_def)
  from working_copy_cloned_from_mirror [OF h, of "[]"]
  have e: "snd (snd (clone_repo_if_required sim (demo_bundle commit_a) (stale_world, [])))
       = [CloneFrom (LocalPath demo_mirror) (demo_copy commit_a) False]"
    by (simp add: p)
  show ?thesis by (intro conjI h e r)
qed



section \<open>Properties of the construction\<close>

text \<open>A clone step on a path that exists opens the repository and does nothing else.\<close>

lemma clone_bare_exists:
  assumes "path_exists g (bare_repo_path b) w"
  shows "clone_bare_repo_if_required g b (w, tr) =
           ((case open_repo g (bare_repo_path b) w of
               Inl e \<Rightarrow> Inl (Git e)
             | Inr u \<Rightarrow> Inr (b\<lparr>bare_repo := Some (bare_repo_path b)\<rparr>)), (w, tr))"
  using assms
  by (auto simp: clone_bare_repo_if_required_def action_defs split: sum.splits prod.splits)

lemma clone_repo_exists:
  assumes "path_exists g (repo_path b) w"
  shows "clone_repo_if_required g b (w, tr) =
           ((case open_repo g (repo_path b) w of
               Inl e \<Rightarrow> Inl (Git e)
             | Inr u \<Rightarrow> Inr (b\<lparr>repo := Some (repo_path b)\<rparr>)), (w, tr))"
  using assms
  by (auto simp: clone_repo_if_required_def action_defs split: sum.splits prod.splits)

text \<open>What the steps return, and how they fail.\<close>

lemma clone_bare_result:
  "clone_bare_repo_if_required g b s = (Inr b1, s1) \<Longrightarrow> b1 = b\<lparr>bare_repo := Some (bare_repo_path b)\<rparr>"
  by (auto simp: clone_bare_repo_if_required_def action_defs split: sum.splits prod.splits if_splits)

lemma clone_repo_result:
  "clone_repo_if_required g b s = (Inr b2, s1) \<Longrightarrow> b2 = b\<lparr>repo := Some (repo_path b)\<rparr>"
  by (auto simp: clone_repo_if_required_def action_defs split: sum.splits prod.splits if_splits)

lemma clone_bare_failure:
  "clone_bare_repo_if_required g b s = (Inl e, s') \<Longrightarrow> \<exists>ge. e = Git ge"
  by (auto simp: clone_bare_repo_if_required_def action_defs split: sum.splits prod.splits if_splits)

lemma clone_repo_failure:
  "clone_repo_if_required g b s = (Inl e, s') \<Longrightarrow> \<exists>ge. e = Git ge"
  by (auto simp: clone_repo_if_required_def action_defs split: sum.splits prod.splits if_splits)

lemma ensure_failure:
  assumes "ensure_version_in_bare_repo g b s = (Inl e, s')" "bare_repo b = Some p"
  shows "(\<exists>ge. e = Git ge) \<or>
         (\<exists>v. version b = Some v \<and> e = AirflowException (''Version '' @ v @ '' not found in the repository'')
              \<and> commit g p v (fst s') = Inl BadName)"
  using assms
  by (auto simp: ensure_version_in_bare_repo_def action_defs
           split: sum.splits prod.splits if_splits git_error.splits option.splits)

lemma checkout_failure:
  "git_call ev f s = (Inl e, s') \<Longrightarrow> \<exists>ge. e = Git ge"
  by (auto simp: action_defs split: sum.splits prod.splits)

lemma detach_failure:
  assumes "detach_to_version g b v s = (Inl e, s')" "repo b = Some p"
  shows "\<exists>ge. e = Git ge"
  using assms
  by (auto simp: detach_to_version_def action_defs
           split: sum.splits prod.splits if_splits git_error.splits)

text \<open>After the block for a pinned version has returned, the head, the index and the
  working tree are at the commit.\<close>

lemma detach_post:
  assumes laws: "head_laws g" and full: "full_commit_id g v"
    and h: "repo b = Some p" and run: "detach_to_version g b v s = (Inr u, s')"
  shows "head_commit g p (fst s') = Inr v
       \<and> index_tree g p (fst s') = commit_tree g p v (fst s')
       \<and> working_tree g p (fst s') = commit_tree g p v (fst s')"
proof -
  from run h obtain w1 c w2 where
    c: "commit g p v w1 = Inr c" and
    sr: "head_set_reference g p c w1 = (Inr (), w2)" and
    rs: "head_reset g p w2 = (Inr (), fst s')"
    by (auto simp: detach_to_version_def action_defs
           split: sum.splits prod.splits if_splits git_error.splits)
  from full c have "c = v" by (auto simp: full_commit_id_def)
  with sr laws have "head_commit g p w2 = Inr v" by (auto simp: head_laws_def)
  with rs laws show ?thesis unfolding head_laws_def by blast
qed

lemma init_repos_post:
  assumes laws: "head_laws g" and full: "full_commit_id g v"
    and v: "version b = Some v" "v \<noteq> []"
    and run: "init_repos g b s = (Inr b', s')"
  shows "b' = b\<lparr>bare_repo := Some (bare_repo_path b), repo := Some (repo_path b)\<rparr>
       \<and> head_commit g (repo_path b) (fst s') = Inr v
       \<and> index_tree g (repo_path b) (fst s') = commit_tree g (repo_path b) v (fst s')
       \<and> working_tree g (repo_path b) (fst s') = commit_tree g (repo_path b) v (fst s')"
proof -
  from run obtain b1 s1 where 1: "clone_bare_repo_if_required g b s = (Inr b1, s1)"
    and r1: "and_then (ensure_version_in_bare_repo g b1) (\<lambda>_.
     and_then (clone_repo_if_required g b1) (\<lambda>b2.
     and_then (with_handle (repo b2) ''repo'' (\<lambda>p.
                 git_call (Checkout p (tracking_ref b2)) (git_checkout g p (tracking_ref b2))))
       (\<lambda>_. and_then
               (case version b2 of
                  None \<Rightarrow> refresh g b2
                | Some v \<Rightarrow> if v \<noteq> [] then detach_to_version g b2 v else refresh g b2)
               (\<lambda>_. return_ok b2)))) s1 = (Inr b', s')"
    unfolding init_repos_def by (blast dest: and_then_Inr)
  from 1 have b1: "b1 = b\<lparr>bare_repo := Some (bare_repo_path b)\<rparr>" by (rule clone_bare_result)
  from r1 obtain u2 s2 where r2: "and_then (clone_repo_if_required g b1) (\<lambda>b2.
     and_then (with_handle (repo b2) ''repo'' (\<lambda>p.
                 git_call (Checkout p (tracking_ref b2)) (git_checkout g p (tracking_ref b2))))
       (\<lambda>_. and_then
               (case version b2 of
                  None \<Rightarrow> refresh g b2
                | Some v \<Rightarrow> if v \<noteq> [] then detach_to_version g b2 v else refresh g b2)
               (\<lambda>_. return_ok b2))) s2 = (Inr b', s')"
    by (blast dest: and_then_Inr)
  from r2 obtain b2 s3 where 3: "clone_repo_if_required g b1 s2 = (Inr b2, s3)"
    and r3: "and_then (with_handle (repo b2) ''repo'' (\<lambda>p.
                 git_call (Checkout p (tracking_ref b2)) (git_checkout g p (tracking_ref b2))))
       (\<lambda>_. and_then
               (case version b2 of
                  None \<Rightarrow> refresh g b2
                | Some v \<Rightarrow> if v \<noteq> [] then detach_to_version g b2 v else refresh g b2)
               (\<lambda>_. return_ok b2)) s3 = (Inr b', s')"
    by (blast dest: and_then_Inr)
  from 3 have b2: "b2 = b1\<lparr>repo := Some (repo_path b1)\<rparr>" by (rule clone_repo_result)
  from r3 obtain u4 s4 where r4: "and_then
               (case version b2 of
                  None \<Rightarrow> refresh g b2
                | Some v \<Rightarrow> if v \<noteq> [] then detach_to_version g b2 v else refresh g b2)
               (\<lambda>_. return_ok b2) s4 = (Inr b', s')"
    by (blast dest: and_then_Inr)
  from r4 obtain u5 s5 where 5: "(case version b2 of
                  None \<Rightarrow> refresh g b2
                | Some v \<Rightarrow> if v \<noteq> [] then detach_to_version g b2 v else refresh g b2) s4 = (Inr u5, s5)"
    and 6: "return_ok b2 s5 = (Inr b', s')"
    by (blast dest: and_then_Inr)
  from 6 have e: "b' = b2" "s' = s5" by (simp_all add: return_ok_def)
  from 5 v b1 b2 e have d: "detach_to_version g b2 v s4 = (Inr u5, s')" by simp
  have hb: "repo b2 = Some (repo_path b)" using b1 b2 by simp
  from detach_post [OF laws full hb d] b1 b2 e show ?thesis by simp
qed

text \<open>
  A construction with a pinned version that fails, fails with an error of the library or
  because the mirror does not resolve the version.
\<close>

lemma init_repos_failure:
  assumes v: "version b = Some v" "v \<noteq> []"
    and run: "init_repos g b s = (Inl e, s')"
  shows "(\<exists>ge. e = Git ge) \<or>
         (e = AirflowException (''Version '' @ v @ '' not found in the repository'')
            \<and> commit g (bare_repo_path b) v (fst s') = Inl BadName)"
  using run unfolding init_repos_def
proof (elim and_then_InlE)
  assume "clone_bare_repo_if_required g b s = (Inl e, s')"
  then show ?thesis by (blast dest: clone_bare_failure)
next
  fix b1 s1
  assume 1: "clone_bare_repo_if_required g b s = (Inr b1, s1)"
    and 2: "ensure_version_in_bare_repo g b1 s1 = (Inl e, s')"
  from 1 have b1: "b1 = b\<lparr>bare_repo := Some (bare_repo_path b)\<rparr>" by (rule clone_bare_result)
  then have "bare_repo b1 = Some (bare_repo_path b)" by simp
  from ensure_failure [OF 2 this] b1 v show ?thesis by auto
next
  fix b1 s1 u s2
  assume "clone_repo_if_required g b1 s2 = (Inl e, s')"
  then show ?thesis by (blast dest: clone_repo_failure)
next
  fix b1 s1 u s2 b2 s3
  assume "with_handle (repo b2) ''repo''
           (\<lambda>p. git_call (Checkout p (tracking_ref b2)) (git_checkout g p (tracking_ref b2))) s3 = (Inl e, s')"
    and "clone_repo_if_required g b1 s2 = (Inr b2, s3)"
  then show ?thesis
    by (auto dest!: clone_repo_result checkout_failure simp: with_handle_def)
next
  fix b1 s1 u s2 b2 s3 u4 s4
  assume 1: "clone_bare_repo_if_required g b s = (Inr b1, s1)"
    and 3: "clone_repo_if_required g b1 s2 = (Inr b2, s3)"
    and 5: "(case version b2 of None \<Rightarrow> refresh g b2
             | Some v \<Rightarrow> if v \<noteq> [] then detach_to_version g b2 v else refresh g b2) s4 = (Inl e, s')"
  from 1 have b1: "b1 = b\<lparr>bare_repo := Some (bare_repo_path b)\<rparr>" by (rule clone_bare_result)
  from 3 have b2: "b2 = b1\<lparr>repo := Some (repo_path b1)\<rparr>" by (rule clone_repo_result)
  from 5 b1 b2 v have "detach_to_version g b2 v s4 = (Inl e, s')" by simp
  moreover have "repo b2 = Some (repo_path b)" using b1 b2 by simp
  ultimately show ?thesis by (blast dest: detach_failure)
next
  fix b2 :: git_dag_bundle and s5 :: "'a \<times> event list"
  assume "return_ok b2 s5 = (Inl e, s')"
  then show ?thesis by (simp add: return_ok_def)
qed

text \<open>The events of the methods: no method but the clone of the mirror clones from a URL.\<close>

lemma emits_return: "emits_only P (return_ok a)"
  by (simp add: emits_only_def return_ok_def)

lemma emits_raise: "emits_only P (raise e)"
  by (simp add: emits_only_def raise_def)

lemma emits_query: "emits_only P (git_query q)"
  by (simp add: emits_only_def git_query_def split: sum.splits)

lemma emits_has_version: "emits_only P (has_version g p v)"
  by (simp add: emits_only_def has_version_def split: sum.splits git_error.splits)

lemma emits_call: "P ev \<Longrightarrow> emits_only P (git_call ev f)"
  by (simp add: emits_only_def git_call_def split: sum.splits prod.splits)

lemma emits_and_then:
  assumes "emits_only P m" "\<And>a. emits_only P (f a)"
  shows "emits_only P (and_then m f)"
  unfolding emits_only_def
proof (intro allI)
  fix w tr
  obtain r w1 tr1 where m: "m (w, tr) = (r, (w1, tr1))" by (metis surj_pair)
  from assms(1) m obtain e1 where e1: "tr1 = tr @ e1" "list_all P e1"
    unfolding emits_only_def by (metis snd_conv)
  show "\<exists>evs. snd (snd (and_then m f (w, tr))) = tr @ evs \<and> list_all P evs"
  proof (cases r)
    case (Inl e)
    with m e1 show ?thesis by (simp add: and_then_def)
  next
    case (Inr a)
    from assms(2) [of a] obtain e2 where "snd (snd (f a (w1, tr1))) = tr1 @ e2" "list_all P e2"
      unfolding emits_only_def by blast
    with Inr m e1 show ?thesis by (simp add: and_then_def)
  qed
qed

lemma emits_with_handle: "(\<And>p. emits_only P (f p)) \<Longrightarrow> emits_only P (with_handle h a f)"
  by (simp add: with_handle_def emits_raise split: option.splits)

lemma emits_cond:
  "emits_only P m1 \<Longrightarrow> emits_only P m2 \<Longrightarrow> emits_only P (\<lambda>s. if c s then m1 s else m2 s)"
  by (simp add: emits_only_def)

lemma emits_ensure: "emits_only (\<lambda>e. \<not> is_network_clone e) (ensure_version_in_bare_repo g b)"
  unfolding ensure_version_in_bare_repo_def
  by (auto intro!: emits_return emits_raise emits_with_handle emits_and_then emits_has_version emits_call
      split: option.splits)

lemma emits_clone_repo: "emits_only (\<lambda>e. \<not> is_network_clone e) (clone_repo_if_required g b)"
  unfolding clone_repo_if_required_def
  by (intro emits_and_then emits_cond emits_call emits_return emits_query) simp

lemma emits_refresh: "emits_only (\<lambda>e. \<not> is_network_clone e) (refresh g b)"
  unfolding refresh_def
  by (auto intro!: emits_return emits_raise emits_with_handle emits_and_then emits_call)

lemma emits_detach: "emits_only (\<lambda>e. \<not> is_network_clone e) (detach_to_version g b v)"
  unfolding detach_to_version_def
  by (auto intro!: emits_return emits_raise emits_with_handle emits_and_then emits_call emits_has_version emits_query)

lemma emits_rest:
  "emits_only (\<lambda>e. \<not> is_network_clone e)
     (and_then (ensure_version_in_bare_repo g b1) (\<lambda>_.
      and_then (clone_repo_if_required g b1) (\<lambda>b2.
      and_then (with_handle (repo b2) ''repo'' (\<lambda>p.
                 git_call (Checkout p (tracking_ref b2)) (git_checkout g p (tracking_ref b2))))
       (\<lambda>_. and_then
               (case version b2 of
                  None \<Rightarrow> refresh g b2
                | Some v \<Rightarrow> if v \<noteq> [] then detach_to_version g b2 v else refresh g b2)
               (\<lambda>_. return_ok b2)))))"
  by (auto intro!: emits_and_then emits_ensure emits_clone_repo emits_with_handle emits_call
        emits_return emits_refresh emits_detach split: option.splits)

lemma init_no_network_clone:
  assumes "path_exists g (bare_repo_path b) w"
  shows "\<exists>evs. snd (snd (init_repos g b (w, tr))) = tr @ evs \<and> list_all (\<lambda>e. \<not> is_network_clone e) evs"
proof (cases "open_repo g (bare_repo_path b) w")
  case (Inl e)
  then show ?thesis
    using clone_bare_exists [OF assms, of tr]
    by (simp add: init_repos_def and_then_def [of "clone_bare_repo_if_required g b"])
next
  case (Inr u)
  then have "init_repos g b (w, tr) =
     (and_then (ensure_version_in_bare_repo g (b\<lparr>bare_repo := Some (bare_repo_path b)\<rparr>)) (\<lambda>_.
      and_then (clone_repo_if_required g (b\<lparr>bare_repo := Some (bare_repo_path b)\<rparr>)) (\<lambda>b2.
      and_then (with_handle (repo b2) ''repo'' (\<lambda>p.
                 git_call (Checkout p (tracking_ref b2)) (git_checkout g p (tracking_ref b2))))
       (\<lambda>_. and_then
               (case version b2 of
                  None \<Rightarrow> refresh g b2
                | Some v \<Rightarrow> if v \<noteq> [] then detach_to_version g b2 v else refresh g b2)
               (\<lambda>_. return_ok b2))))) (w, tr)"
    using clone_bare_exists [OF assms, of tr]
    by (simp add: init_repos_def and_then_def [of "clone_bare_repo_if_required g b"])
  then show ?thesis
    using emits_rest [of g "b\<lparr>bare_repo := Some (bare_repo_path b)\<rparr>"]
    unfolding emits_only_def by simp
qed

text \<open>The small git keeps the two facts about the head, and resolves identifiers to themselves.\<close>

lemma sim_head_laws: "head_laws sim"
  by (auto simp: head_laws_def sim_defs split: option.splits head.splits if_splits)

lemma sim_full_commit_id: "full_commit_id sim v"
  by (auto simp: full_commit_id_def sim_defs split: option.splits if_splits)

text \<open>
  Claim C4. When the path of the mirror exists, the clone step of the mirror opens the
  repository at that path: it records no event and leaves the state as it was; likewise
  the clone step of the working copy when its path exists. A construction that finds
  the path of the mirror has no clone from a URL among its events. And two constructions
  for the same pinned version, a full commit identifier, that both return, give the same
  answer to \<open>get_current_version\<close>: that version.
\<close>

theorem no_reclone:
  "(path_exists g (bare_repo_path b) w \<longrightarrow>
      clone_bare_repo_if_required g b (w, tr) =
        ((case open_repo g (bare_repo_path b) w of
            Inl e \<Rightarrow> Inl (Git e)
          | Inr u \<Rightarrow> Inr (b\<lparr>bare_repo := Some (bare_repo_path b)\<rparr>)), (w, tr)))
   \<and> (path_exists g (repo_path b) w \<longrightarrow>
      clone_repo_if_required g b (w, tr) =
        ((case open_repo g (repo_path b) w of
            Inl e \<Rightarrow> Inl (Git e)
          | Inr u \<Rightarrow> Inr (b\<lparr>repo := Some (repo_path b)\<rparr>)), (w, tr)))
   \<and> (path_exists g (mk_bare_repo_path root n) w \<longrightarrow>
      (\<exists>evs. snd (snd (init g n ver root url r sd (w, tr))) = tr @ evs
         \<and> list_all (\<lambda>e. \<not> is_network_clone e) evs))
   \<and> (head_laws g \<and> full_commit_id g v \<and> v \<noteq> []
        \<and> init g n (Some v) root url r sd s1 = (Inr b1, s1')
        \<and> init g n (Some v) root url r sd s2 = (Inr b2, s2') \<longrightarrow>
      get_current_version g b1 (fst s1') = Inr v
        \<and> get_current_version g b2 (fst s2') = get_current_version g b1 (fst s1'))"
proof (intro conjI impI)
  assume "path_exists g (bare_repo_path b) w"
  then show "clone_bare_repo_if_required g b (w, tr) =
        ((case open_repo g (bare_repo_path b) w of
            Inl e \<Rightarrow> Inl (Git e)
          | Inr u \<Rightarrow> Inr (b\<lparr>bare_repo := Some (bare_repo_path b)\<rparr>)), (w, tr))"
    by (rule clone_bare_exists)
next
  assume "path_exists g (repo_path b) w"
  then show "clone_repo_if_required g b (w, tr) =
        ((case open_repo g (repo_path b) w of
            Inl e \<Rightarrow> Inl (Git e)
          | Inr u \<Rightarrow> Inr (b\<lparr>repo := Some (repo_path b)\<rparr>)), (w, tr))"
    by (rule clone_repo_exists)
next
  assume "path_exists g (mk_bare_repo_path root n) w"
  then have "path_exists g (bare_repo_path (new_bundle n ver root url r sd)) w"
    by (simp add: new_bundle_def)
  from init_no_network_clone [OF this, of tr]
  show "\<exists>evs. snd (snd (init g n ver root url r sd (w, tr))) = tr @ evs
         \<and> list_all (\<lambda>e. \<not> is_network_clone e) evs"
    by (simp add: init_def)
next
  assume a: "head_laws g \<and> full_commit_id g v \<and> v \<noteq> []
        \<and> init g n (Some v) root url r sd s1 = (Inr b1, s1')
        \<and> init g n (Some v) root url r sd s2 = (Inr b2, s2')"
  let ?b = "new_bundle n (Some v) root url r sd"
  have ver: "version ?b = Some v" by (simp add: new_bundle_def)
  have cur: "get_current_version g b' (fst s') = Inr v"
    if "init g n (Some v) root url r sd s = (Inr b', s')" for s b' s'
  proof -
    from that have "init_repos g ?b s = (Inr b', s')" by (simp add: init_def)
    from init_repos_post [OF _ _ ver _ this] a
    have "b' = ?b\<lparr>bare_repo := Some (bare_repo_path ?b), repo := Some (repo_path ?b)\<rparr>"
      and "head_commit g (repo_path ?b) (fst s') = Inr v" by blast+
    then show ?thesis by (simp add: get_current_version_def)
  qed
  from a have 1: "get_current_version g b1 (fst s1') = Inr v" by (intro cur) blast
  from a have 2: "get_current_version g b2 (fst s2') = Inr v" by (intro cur) blast
  from 1 show "get_current_version g b1 (fst s1') = Inr v" .
  from 1 2 show "get_current_version g b2 (fst s2') = get_current_version g b1 (fst s1')" by simp
qed

text \<open>
  The example bundle pinned to the first commit, constructed twice: on an empty disk,
  and again on the disk that the first construction left. The second construction
  finds both paths, clones nothing, and ends at the same version.
\<close>

theorem no_reclone_witness:
  "head_laws sim \<and> full_commit_id sim commit_a \<and> commit_a \<noteq> []
   \<and> snd (snd (init sim ''dags'' (Some commit_a) demo_root demo_url ''main'' None (demo_world, [])))
       = [CloneFrom (Url demo_url) demo_mirror True,
          CloneFrom (LocalPath demo_mirror) (demo_copy commit_a) False,
          Checkout (demo_copy commit_a) ''main'',
          SetReference (demo_copy commit_a) commit_a,
          Reset (demo_copy commit_a)]
   \<and> path_exists sim (mk_bare_repo_path demo_root ''dags'')
        (fst (snd (init sim ''dags'' (Some commit_a) demo_root demo_url ''main'' None (demo_world, []))))
   \<and> snd (snd (init sim ''dags'' (Some commit_a) demo_root demo_url ''main'' None
        (fst (snd (init sim ''dags'' (Some commit_a) demo_root demo_url ''main'' None (demo_world, []))), [])))
       = [Checkout (demo_copy commit_a) ''main'',
          SetReference (demo_copy commit_a) commit_a,
          Reset (demo_copy commit_a)]
   \<and> get_current_version sim (opened (demo_bundle commit_a))
        (fst (snd (init sim ''dags'' (Some commit_a) demo_root demo_url ''main'' None (demo_world, []))))
       = Inr commit_a
   \<and> get_current_version sim (opened (demo_bundle commit_a))
        (fst (snd (init sim ''dags'' (Some commit_a) demo_root demo_url ''main'' None
          (fst (snd (init sim ''dags'' (Some commit_a) demo_root demo_url ''main'' None (demo_world, []))), []))))
       = Inr commit_a"
proof -
  let ?run = "init sim ''dags'' (Some commit_a) demo_root demo_url ''main'' None"
  let ?s1 = "snd (?run (demo_world, []))"
  let ?s2 = "snd (?run (fst ?s1, []))"
  have ne: "commit_a \<noteq> []" by (simp add: commit_a_def)
  have e1: "snd ?s1
       = [CloneFrom (Url demo_url) demo_mirror True,
          CloneFrom (LocalPath demo_mirror) (demo_copy commit_a) False,
          Checkout (demo_copy commit_a) ''main'',
          SetReference (demo_copy commit_a) commit_a,
          Reset (demo_copy commit_a)]"
    by (simp add: method_defs action_defs sim_defs path_defs demo_defs)
  have f1: "fst (?run (demo_world, [])) = Inr (opened (demo_bundle commit_a))"
    by (simp add: method_defs action_defs sim_defs path_defs demo_defs)
  have p: "path_exists sim (mk_bare_repo_path demo_root ''dags'') (fst ?s1)"
    by (simp add: method_defs action_defs sim_defs path_defs demo_defs)
  have e2: "snd ?s2
       = [Checkout (demo_copy commit_a) ''main'',
          SetReference (demo_copy commit_a) commit_a,
          Reset (demo_copy commit_a)]"
    by (simp add: method_defs action_defs sim_defs path_defs demo_defs)
  have f2: "fst (?run (fst ?s1, [])) = Inr (opened (demo_bundle commit_a))"
    by (simp add: method_defs action_defs sim_defs path_defs demo_defs)
  from f1 have r1: "?run (demo_world, []) = (Inr (opened (demo_bundle commit_a)), ?s1)"
    by (simp add: prod_eq_iff)
  from f2 have r2: "?run (fst ?s1, []) = (Inr (opened (demo_bundle commit_a)), ?s2)"
    by (simp add: prod_eq_iff)
  note t = no_reclone [of sim _ "fst ?s1" "[]" demo_root "''dags''" "Some commit_a" demo_url "''main''"
      None commit_a "(demo_world, [])" "opened (demo_bundle commit_a)" ?s1
      "(fst ?s1, [])" "opened (demo_bundle commit_a)" ?s2]
  from t sim_head_laws sim_full_commit_id [of commit_a] ne r1 r2
  have c1: "get_current_version sim (opened (demo_bundle commit_a)) (fst ?s1) = Inr commit_a"
    and c2: "get_current_version sim (opened (demo_bundle commit_a)) (fst ?s2)
               = get_current_version sim (opened (demo_bundle commit_a)) (fst ?s1)"
    by blast+
  from c1 c2 have c3: "get_current_version sim (opened (demo_bundle commit_a)) (fst ?s2) = Inr commit_a"
    by simp
  show ?thesis
    by (intro conjI sim_head_laws sim_full_commit_id ne e1 p e2 c1 c3)
qed
text \<open>
  Claim C1, as amended. For a pinned version \<open>v\<close> that is a full commit identifier, and
  a library that keeps the two facts about the head: when the construction returns,
  \<open>get_current_version\<close> returns exactly \<open>v\<close>, and the index and the working tree of
  the working copy are the tree of the commit \<open>v\<close>. When it does not return, it has
  raised an error of the git library (a clone, a fetch, the checkout of the tracking
  ref, which runs before the pinned version is looked at, or the reset has failed), or
  "Version v not found in the repository", and then the mirror does not resolve \<open>v\<close>.
\<close>

theorem pinned_construction:
  assumes "head_laws g" "full_commit_id g v" "v \<noteq> []"
    and "init g n (Some v) root url r sd s = (res, s')"
  shows "(\<forall>b. res = Inr b \<longrightarrow>
            get_current_version g b (fst s') = Inr v
          \<and> index_tree g (repo_path b) (fst s') = commit_tree g (repo_path b) v (fst s')
          \<and> working_tree g (repo_path b) (fst s') = commit_tree g (repo_path b) v (fst s'))
       \<and> (\<forall>e. res = Inl e \<longrightarrow>
            (\<exists>ge. e = Git ge)
          \<or> (e = AirflowException (''Version '' @ v @ '' not found in the repository'')
             \<and> commit g (mk_bare_repo_path root n) v (fst s') = Inl BadName))"
proof -
  let ?b = "new_bundle n (Some v) root url r sd"
  have ver: "version ?b = Some v" by (simp add: new_bundle_def)
  have ok: "get_current_version g b (fst s') = Inr v"
      "index_tree g (repo_path b) (fst s') = commit_tree g (repo_path b) v (fst s')"
      "working_tree g (repo_path b) (fst s') = commit_tree g (repo_path b) v (fst s')"
    if "res = Inr b" for b
  proof -
    from that assms(4) have "init_repos g ?b s = (Inr b, s')" by (simp add: init_def)
    from init_repos_post [OF assms(1,2) ver assms(3) this]
    have b: "b = ?b\<lparr>bare_repo := Some (bare_repo_path ?b), repo := Some (repo_path ?b)\<rparr>"
      and h: "head_commit g (repo_path ?b) (fst s') = Inr v"
      and i: "index_tree g (repo_path ?b) (fst s') = commit_tree g (repo_path ?b) v (fst s')"
      and w: "working_tree g (repo_path ?b) (fst s') = commit_tree g (repo_path ?b) v (fst s')"
      by blast+
    from b h show "get_current_version g b (fst s') = Inr v"
      by (simp add: get_current_version_def)
    from b i show "index_tree g (repo_path b) (fst s') = commit_tree g (repo_path b) v (fst s')"
      by simp
    from b w show "working_tree g (repo_path b) (fst s') = commit_tree g (repo_path b) v (fst s')"
      by simp
  qed
  have failed: "(\<exists>ge. e = Git ge)
          \<or> (e = AirflowException (''Version '' @ v @ '' not found in the repository'')
             \<and> commit g (mk_bare_repo_path root n) v (fst s') = Inl BadName)"
    if "res = Inl e" for e
  proof -
    from that assms(4) have "init_repos g ?b s = (Inl e, s')" by (simp add: init_def)
    from init_repos_failure [OF ver assms(3) this]
    show ?thesis by (simp add: new_bundle_def)
  qed
  show ?thesis by (intro conjI allI impI ok failed)
qed

text \<open>
  The example bundle on an empty disk. Pinned to the first commit, while the branch
  \<open>main\<close> is at the second: the construction returns and the working copy is at the
  first commit. Pinned to a commit that the origin does not have: the construction
  raises "Version ... not found in the repository".
\<close>

theorem pinned_construction_witness:
  "head_laws sim \<and> full_commit_id sim commit_a \<and> commit_a \<noteq> []
   \<and> fst (init sim ''dags'' (Some commit_a) demo_root demo_url ''main'' None (demo_world, []))
       = Inr (opened (demo_bundle commit_a))
   \<and> get_current_version sim (opened (demo_bundle commit_a))
        (fst (snd (init sim ''dags'' (Some commit_a) demo_root demo_url ''main'' None (demo_world, []))))
       = Inr commit_a
   \<and> index_tree sim (demo_copy commit_a)
        (fst (snd (init sim ''dags'' (Some commit_a) demo_root demo_url ''main'' None (demo_world, []))))
       = Some commit_a
   \<and> working_tree sim (demo_copy commit_a)
        (fst (snd (init sim ''dags'' (Some commit_a) demo_root demo_url ''main'' None (demo_world, []))))
       = Some commit_a
   \<and> full_commit_id sim commit_c \<and> commit_c \<noteq> []
   \<and> fst (init sim ''dags'' (Some commit_c) demo_root demo_url ''main'' None (demo_world, []))
       = Inl (AirflowException ''Version 5b4a39281706f5e4d3c2b1a0f9e8d7c6b5a49382 not found in the repository'')
   \<and> commit sim demo_mirror commit_c
        (fst (snd (init sim ''dags'' (Some commit_c) demo_root demo_url ''main'' None (demo_world, []))))
       = Inl BadName"
proof -
  let ?run = "\<lambda>v. init sim ''dags'' (Some v) demo_root demo_url ''main'' None (demo_world, [])"
  let ?nf = "AirflowException ''Version 5b4a39281706f5e4d3c2b1a0f9e8d7c6b5a49382 not found in the repository''"
  have ne: "commit_a \<noteq> []" "commit_c \<noteq> []" by (simp_all add: commit_a_def commit_c_def)
  have fa: "fst (?run commit_a) = Inr (opened (demo_bundle commit_a))"
    by (simp add: method_defs action_defs sim_defs path_defs demo_defs)
  have fc: "fst (?run commit_c) = Inl ?nf"
    by (simp add: method_defs action_defs sim_defs path_defs demo_defs)
  have pa: "repo_path (opened (demo_bundle commit_a)) = demo_copy commit_a"
    by (simp add: opened_def demo_paths commit_a_def)
  have m: "mk_bare_repo_path demo_root ''dags'' = demo_mirror"
    using demo_paths(1) [of commit_a] by (simp add: demo_bundle_def new_bundle_def)
  have ct: "commit_tree sim p c w = Some c" for p c w by (simp add: sim_def)
  from fa have ra: "?run commit_a = (Inr (opened (demo_bundle commit_a)), snd (?run commit_a))"
    by (simp add: prod_eq_iff)
  from fc have rc: "?run commit_c = (Inl ?nf, snd (?run commit_c))"
    by (simp add: prod_eq_iff)
  note ta = pinned_construction [OF sim_head_laws sim_full_commit_id ne(1) ra]
  note tc = pinned_construction [OF sim_head_laws sim_full_commit_id ne(2) rc]
  from ta have ga: "get_current_version sim (opened (demo_bundle commit_a)) (fst (snd (?run commit_a)))
       = Inr commit_a"
    and ia: "index_tree sim (demo_copy commit_a) (fst (snd (?run commit_a))) = Some commit_a"
    and wa: "working_tree sim (demo_copy commit_a) (fst (snd (?run commit_a))) = Some commit_a"
    by (simp_all add: pa ct)
  from tc have bc: "commit sim demo_mirror commit_c (fst (snd (?run commit_c))) = Inl BadName"
    by (simp add: m)
  show ?thesis
    by (intro conjI sim_head_laws sim_full_commit_id ne fa ga ia wa fc bc)
qed

text \<open>
  The claim as it was stated fails. \<open>__init__\<close> checks out the tracking ref (line 61)
  before it looks at the pinned version (lines 63 to 68), and the mirror is fetched only
  when it does not hold the pinned version (lines 92 and 93). The first commit is in the
  history of the origin and in the mirror, and the tracking ref \<open>feature\<close> is a branch
  of the origin that the mirror does not have yet: the construction of the bundle pinned
  to the first commit does not fetch, and the checkout fails. On an empty disk, the
  construction fails in the same way with a tracking ref that the origin does not have.
\<close>

theorem pinned_construction_missing_tracking_ref:
  "remotes branched_world demo_url = Some branched_origin
   \<and> commit_a \<in> set (objects branched_origin)
   \<and> map_of (heads branched_origin) ''feature'' = Some commit_b
   \<and> fst (init sim ''dags'' (Some commit_a) demo_root demo_url ''feature'' None (branched_world, []))
       = Inl (Git (GitError ''pathspec did not match''))
   \<and> snd (snd (init sim ''dags'' (Some commit_a) demo_root demo_url ''feature'' None (branched_world, [])))
       = [CloneFrom (LocalPath demo_mirror) (demo_copy commit_a) False,
          Checkout (demo_copy commit_a) ''feature'']
   \<and> remotes demo_world demo_url = Some demo_origin
   \<and> commit_a \<in> set (objects demo_origin)
   \<and> map_of (heads demo_origin) ''release'' = None
   \<and> fst (init sim ''dags'' (Some commit_a) demo_root demo_url ''release'' None (demo_world, []))
       = Inl (Git (GitError ''pathspec did not match''))
   \<and> snd (snd (init sim ''dags'' (Some commit_a) demo_root demo_url ''release'' None (demo_world, [])))
       = [CloneFrom (Url demo_url) demo_mirror True,
          CloneFrom (LocalPath demo_mirror) (demo_copy commit_a) False,
          Checkout (demo_copy commit_a) ''release'']"
  by (simp add: method_defs action_defs sim_defs path_defs demo_defs branched_world_def
        branched_origin_def)

end
